theory Spec2Isabelle
  imports Complex_Main
begin

section \<open>Regression losses of mmpose: SmoothL1Loss and WingLoss\<close>

text \<open>
  A shallow embedding of \<^verbatim>\<open>mmpose/models/losses/regression_loss.py\<close>.

  Floating-point numbers are idealised as reals: rounding, overflow and the propagation
  of infinities are not modelled (but for the rounded reading of SmoothL1Loss further
  down, which shows where an exact equality of the reals fails in binary64). The one place where the idealisation would otherwise
  hide what the code does is a division by zero inside the tensor engine (the mean of no
  elements, a quotient by zero joints): the engine answers NaN there, and the model
  answers the fault \<open>NonFinite\<close>, so that no theorem gets a number out of \<open>x / 0 = 0\<close>.
  Python's own arithmetic raises instead (\<^verbatim>\<open>omega / epsilon\<close> on \<open>epsilon = 0\<close>,
  \<^verbatim>\<open>math.log\<close> on a non-positive argument); each raise is a fault of the model as well.
\<close>

subsection \<open>Faults\<close>

datatype fault =
  ShapeMismatch        \<comment> \<open>operands of an elementwise operation differ in shape\<close>
  | ZeroDivisionError  \<comment> \<open>Python's \<^verbatim>\<open>/\<close> on numbers, divisor zero\<close>
  | ValueError         \<comment> \<open>\<^verbatim>\<open>math.log\<close> outside its domain\<close>
  | NonFinite          \<comment> \<open>the tensor engine divided by zero: the float result is no number\<close>

subsection \<open>Tensors of rank three\<close>

text \<open>
  The documented argument type is \<^verbatim>\<open>torch.Tensor[N, K, 2]\<close>: a tensor of rank three.
  It is modelled as its three sizes and its elements in row-major order; element
  \<open>(n, k, c)\<close> sits at index \<open>(n * size1 + k) * size2 + c\<close>. The engine keeps
  \<open>length elems = size0 * size1 * size2\<close> (\<open>wf\<close> below).

  Elementwise operations are modelled on operands of one shape, which is what the
  signature documents. The engine would also broadcast operands of compatible,
  different shapes; the model does not follow it there and answers \<open>ShapeMismatch\<close>
  for every pair of different shapes.
\<close>

record tensor =
  size0 :: nat
  size1 :: nat
  size2 :: nat
  elems :: "real list"

definition wf :: "tensor \<Rightarrow> bool" where
  "wf t = (length (elems t) = size0 t * size1 t * size2 t)"

definition same_shape :: "tensor \<Rightarrow> tensor \<Rightarrow> bool" where
  "same_shape a b = (size0 a = size0 b \<and> size1 a = size1 b \<and> size2 a = size2 b)"

definition pointwise :: "(real \<Rightarrow> real \<Rightarrow> real) \<Rightarrow> tensor \<Rightarrow> tensor \<Rightarrow> fault + tensor" where
  "pointwise f a b =
     (if same_shape a b then Inr (a\<lparr>elems := map2 f (elems a) (elems b)\<rparr>)
      else Inl ShapeMismatch)"

text \<open>\<^verbatim>\<open>a.mul(b)\<close>, \<^verbatim>\<open>a - b\<close> and \<^verbatim>\<open>a.abs()\<close>.\<close>

definition mul :: "tensor \<Rightarrow> tensor \<Rightarrow> fault + tensor" where
  "mul a b = pointwise (\<lambda>x y. x * y) a b"

definition sub :: "tensor \<Rightarrow> tensor \<Rightarrow> fault + tensor" where
  "sub a b = pointwise (\<lambda>x y. x - y) a b"

definition abs_t :: "tensor \<Rightarrow> tensor" where
  "abs_t a = a\<lparr>elems := map abs (elems a)\<rparr>"

text \<open>
  \<^verbatim>\<open>torch.mean\<close> of a list of scalars: the sum over the count, NaN on no elements.
  Sum and quotient are exact here; the engine rounds both (\<open>mean_fl64\<close> below).
\<close>

definition mean :: "real list \<Rightarrow> fault + real" where
  "mean xs = (if xs = [] then Inl NonFinite else Inr (sum_list xs / real (length xs)))"

text \<open>
  \<^verbatim>\<open>torch.sum(t, dim=[1, 2])\<close>: one sum per sample, over its \<open>size1 * size2\<close>
  consecutive elements.
\<close>

definition sample :: "tensor \<Rightarrow> nat \<Rightarrow> real list" where
  "sample t n = take (size1 t * size2 t) (drop (n * (size1 t * size2 t)) (elems t))"

definition sum_dims12 :: "tensor \<Rightarrow> real list" where
  "sum_dims12 t = map (\<lambda>n. sum_list (sample t n)) [0..<size0 t]"

text \<open>
  \<^verbatim>\<open>loss / num_joints\<close>: a scalar tensor over a Python int. The engine does not
  raise on zero joints; the quotient is NaN.
\<close>

definition div_joints :: "real \<Rightarrow> nat \<Rightarrow> fault + real" where
  "div_joints loss num_joints =
     (if num_joints = 0 then Inl NonFinite else Inr (loss / real num_joints))"

subsection \<open>SmoothL1Loss\<close>

text \<open>
  \<^verbatim>\<open>torch.nn.functional.smooth_l1_loss(input, target)\<close> with its default arguments
  (\<^verbatim>\<open>reduction='mean'\<close>, \<^verbatim>\<open>beta=1.0\<close>): the elementwise term on
  \<open>x = input - target\<close>, averaged over all elements.
\<close>

definition smooth_l1 :: "real \<Rightarrow> real" where
  "smooth_l1 x = (if \<bar>x\<bar> < 1 then 0.5 * x\<^sup>2 else \<bar>x\<bar> - 0.5)"

definition smooth_l1_loss :: "tensor \<Rightarrow> tensor \<Rightarrow> fault + real" where
  "smooth_l1_loss input target =
     (case sub input target of
        Inl e \<Rightarrow> Inl e
      | Inr x \<Rightarrow> mean (map smooth_l1 (elems x)))"

record SmoothL1Loss =
  use_target_weight :: bool
  loss_weight :: real

definition SmoothL1Loss_forward ::
  "SmoothL1Loss \<Rightarrow> tensor \<Rightarrow> tensor \<Rightarrow> tensor \<Rightarrow> fault + real" where
  "SmoothL1Loss_forward self output target target_weight =
     (let num_joints = size1 output in
      case (if use_target_weight self then
              (case mul output target_weight of
                 Inl e \<Rightarrow> Inl e
               | Inr ow \<Rightarrow>
                   (case mul target target_weight of
                      Inl e \<Rightarrow> Inl e
                    | Inr tw \<Rightarrow> smooth_l1_loss ow tw))
            else smooth_l1_loss output target) of
        Inl e \<Rightarrow> Inl e
      | Inr loss \<Rightarrow>
          (case div_joints loss num_joints of
             Inl e \<Rightarrow> Inl e
           | Inr q \<Rightarrow> Inr (q * loss_weight self)))"

subsection \<open>WingLoss\<close>

record WingLoss =
  omega :: real
  epsilon :: real
  use_target_weight :: bool
  loss_weight :: real

text \<open>Python's \<^verbatim>\<open>a / b\<close> on numbers and \<^verbatim>\<open>math.log\<close>.\<close>

definition py_div :: "real \<Rightarrow> real \<Rightarrow> fault + real" where
  "py_div a b = (if b = 0 then Inl ZeroDivisionError else Inr (a / b))"

definition math_log :: "real \<Rightarrow> fault + real" where
  "math_log x = (if x \<le> 0 then Inl ValueError else Inr (ln x))"

text \<open>
  The constant of the linear branch:
  \<^verbatim>\<open>c = self.omega * (1.0 - math.log(1.0 + self.omega / self.epsilon))\<close>.
\<close>

definition wing_c :: "real \<Rightarrow> real \<Rightarrow> fault + real" where
  "wing_c w e =
     (case py_div w e of
        Inl err \<Rightarrow> Inl err
      | Inr q \<Rightarrow>
          (case math_log (1 + q) of
             Inl err \<Rightarrow> Inl err
           | Inr l \<Rightarrow> Inr (w * (1 - l))))"

text \<open>
  The two branches of \<^verbatim>\<open>torch.where\<close> and the selection by \<^verbatim>\<open>torch.lt(delta, omega)\<close>,
  on one element. \<^verbatim>\<open>torch.log\<close> does not raise; where \<open>wing_c\<close> has returned, the
  argument of the selected logarithm is positive (\<open>wing_log_arg_pos\<close> below), so \<open>ln\<close>
  is the engine's value on every element that is selected.
\<close>

definition wing_log :: "real \<Rightarrow> real \<Rightarrow> real \<Rightarrow> real" where
  "wing_log w e delta = w * ln (1 + delta / e)"

definition wing_lin :: "real \<Rightarrow> real \<Rightarrow> real" where
  "wing_lin c delta = delta - c"

definition wing_where :: "real \<Rightarrow> real \<Rightarrow> real \<Rightarrow> real \<Rightarrow> real" where
  "wing_where w e c delta = (if delta < w then wing_log w e delta else wing_lin c delta)"

definition WingLoss_criterion :: "WingLoss \<Rightarrow> tensor \<Rightarrow> tensor \<Rightarrow> fault + real" where
  "WingLoss_criterion self pred target =
     (case sub target pred of
        Inl e \<Rightarrow> Inl e
      | Inr d \<Rightarrow>
          (let delta = abs_t d in
           case wing_c (omega self) (epsilon self) of
             Inl e \<Rightarrow> Inl e
           | Inr c \<Rightarrow>
               (let losses = delta\<lparr>elems :=
                      map (wing_where (omega self) (epsilon self) c) (elems delta)\<rparr>
                in mean (sum_dims12 losses))))"

definition WingLoss_forward ::
  "WingLoss \<Rightarrow> tensor \<Rightarrow> tensor \<Rightarrow> tensor \<Rightarrow> fault + real" where
  "WingLoss_forward self output target target_weight =
     (let num_joints = size1 output in
      case (if use_target_weight self then
              (case mul output target_weight of
                 Inl e \<Rightarrow> Inl e
               | Inr ow \<Rightarrow>
                   (case mul target target_weight of
                      Inl e \<Rightarrow> Inl e
                    | Inr tw \<Rightarrow> WingLoss_criterion self ow tw))
            else WingLoss_criterion self output target) of
        Inl e \<Rightarrow> Inl e
      | Inr loss \<Rightarrow>
          (case div_joints loss num_joints of
             Inl e \<Rightarrow> Inl e
           | Inr q \<Rightarrow> Inr (q * loss_weight self)))"

subsection \<open>The shapes and inputs the specification speaks of\<close>

text \<open>
  A tensor of shape \<open>(N, K, 2)\<close>, and its element at \<open>(n, k, c)\<close>.
\<close>

definition shaped :: "nat \<Rightarrow> nat \<Rightarrow> tensor \<Rightarrow> bool" where
  "shaped N K t = (size0 t = N \<and> size1 t = K \<and> size2 t = 2 \<and> wf t)"

definition elem_at :: "tensor \<Rightarrow> nat \<Rightarrow> nat \<Rightarrow> nat \<Rightarrow> real" where
  "elem_at t n k c = elems t ! ((n * size1 t + k) * size2 t + c)"

text \<open>\<^verbatim>\<open>torch.zeros(N, K, 2)\<close> and \<^verbatim>\<open>t.repeat(N, 1, 1)\<close>.\<close>

definition zeros :: "nat \<Rightarrow> nat \<Rightarrow> tensor" where
  "zeros N K = \<lparr>size0 = N, size1 = K, size2 = 2, elems = replicate (N * K * 2) 0\<rparr>"


text \<open>
  The specification's formulas, in its own words. Smooth-L1: \<open>0.5 x\<^sup>2\<close> for
  \<open>\<bar>x\<bar> < 1\<close> and \<open>\<bar>x\<bar> - 0.5\<close> otherwise, on \<open>x = prediction - target\<close>, averaged over
  all \<open>N K 2\<close> elements, divided by \<open>K\<close>, times the scale.
\<close>

definition spec_f :: "real \<Rightarrow> real" where
  "spec_f x = (if \<bar>x\<bar> < 1 then 0.5 * x\<^sup>2 else \<bar>x\<bar> - 0.5)"

definition SmoothL1Loss_spec :: "real \<Rightarrow> nat \<Rightarrow> nat \<Rightarrow> tensor \<Rightarrow> tensor \<Rightarrow> real" where
  "SmoothL1Loss_spec scale N K prediction target =
     (\<Sum>n<N. \<Sum>k<K. \<Sum>c<2. spec_f (elem_at prediction n k c - elem_at target n k c))
       / real (N * K * 2) / real K * scale"

text \<open>
  Wing: on \<open>\<delta> = \<bar>prediction - target\<bar>\<close>, \<open>\<omega> ln (1 + \<delta> / \<epsilon>)\<close> if \<open>\<delta> < \<omega>\<close> and
  \<open>\<delta> - C\<close> otherwise, with \<open>C = \<omega> (1 - ln (1 + \<omega> / \<epsilon>))\<close>; summed per sample over
  joints and coordinates, averaged over the batch, divided by \<open>K\<close>, times the scale.
\<close>

definition spec_C :: "real \<Rightarrow> real \<Rightarrow> real" where
  "spec_C w e = w * (1 - ln (1 + w / e))"

definition spec_g :: "real \<Rightarrow> real \<Rightarrow> real \<Rightarrow> real" where
  "spec_g w e delta = (if delta < w then w * ln (1 + delta / e) else delta - spec_C w e)"

definition WingLoss_spec ::
  "real \<Rightarrow> real \<Rightarrow> real \<Rightarrow> nat \<Rightarrow> nat \<Rightarrow> tensor \<Rightarrow> tensor \<Rightarrow> real" where
  "WingLoss_spec w e scale N K prediction target =
     (\<Sum>n<N. \<Sum>k<K. \<Sum>c<2. spec_g w e \<bar>elem_at prediction n k c - elem_at target n k c\<bar>)
       / real N / real K * scale"

text \<open>
  The specification's concrete scenario: \<open>N = 1\<close>, \<open>K = 1\<close>, output \<open>[[[0, 0]]]\<close>,
  target \<open>[[[1, 0]]]\<close>, weight \<open>[[[1, 1]]]\<close>, no target weighting, scale 1, and for the
  wing loss \<open>\<omega> = 10\<close>, \<open>\<epsilon> = 2\<close>.
\<close>

definition scenario_output :: tensor where
  "scenario_output = \<lparr>size0 = 1, size1 = 1, size2 = 2, elems = [0, 0]\<rparr>"

definition scenario_target :: tensor where
  "scenario_target = \<lparr>size0 = 1, size1 = 1, size2 = 2, elems = [1, 0]\<rparr>"

definition scenario_weight :: tensor where
  "scenario_weight = \<lparr>size0 = 1, size1 = 1, size2 = 2, elems = [1, 1]\<rparr>"

definition scenario_smooth :: SmoothL1Loss where
  "scenario_smooth =
     \<lparr>SmoothL1Loss.use_target_weight = False, SmoothL1Loss.loss_weight = 1\<rparr>"

definition scenario_wing :: WingLoss where
  "scenario_wing = \<lparr>omega = 10, epsilon = 2, use_target_weight = False, loss_weight = 1\<rparr>"

text \<open>
  A second input, two samples of two joints, for the instances of the general
  theorems: output \<open>[[[0, 0], [3, 1]], [[1, 1], [0, 12]]]\<close>, target
  \<open>[[[1, 0], [0, 1/2]], [[1, 1], [0, 0]]]\<close>, weight \<open>[[[1, 1], [0, 0]], [[1, 1], [2, 2]]]\<close>.
\<close>

definition batch_output :: tensor where
  "batch_output = \<lparr>size0 = 2, size1 = 2, size2 = 2, elems = [0, 0, 3, 1, 1, 1, 0, 12]\<rparr>"

definition batch_target :: tensor where
  "batch_target = \<lparr>size0 = 2, size1 = 2, size2 = 2, elems = [1, 0, 0, 1/2, 1, 1, 0, 0]\<rparr>"

definition batch_weight :: tensor where
  "batch_weight = \<lparr>size0 = 2, size1 = 2, size2 = 2, elems = [1, 1, 0, 0, 1, 1, 2, 2]\<rparr>"




subsection \<open>SmoothL1Loss on binary64 tensors, with rounding\<close>

text \<open>
  Everything above computes in exact reals. Where a claim is an exact equality between
  two runs that round differently, the reals say too much; this subsection is the
  reading of SmoothL1Loss.forward on tensors of dtype \<^verbatim>\<open>torch.float64\<close>, each
  arithmetic operation rounded to the nearest binary64 number, ties to even.

  \<open>fl64\<close> rounds a real to 53 significant bits. Overflow and subnormal numbers are not
  modelled: it is the engine's rounding on the normal range only.
\<close>

definition rne :: "real \<Rightarrow> int" where
  "rne y =
     (let f = \<lfloor>y\<rfloor> in
      if y - of_int f < 1 / 2 then f
      else if 1 / 2 < y - of_int f then f + 1
      else if even f then f else f + 1)"









text \<open>The two configurations with \<open>use_target_weight = True\<close>.\<close>

definition weighted_smooth :: SmoothL1Loss where
  "weighted_smooth =
     \<lparr>SmoothL1Loss.use_target_weight = True, SmoothL1Loss.loss_weight = 1\<rparr>"

definition weighted_wing :: WingLoss where
  "weighted_wing = \<lparr>omega = 10, epsilon = 2, use_target_weight = True, loss_weight = 1\<rparr>"

lemmas scenario_defs =
  scenario_output_def scenario_target_def scenario_weight_def scenario_smooth_def
  scenario_wing_def

lemmas batch_defs = batch_output_def batch_target_def batch_weight_def

lemmas tensor_defs =
  sub_def mul_def pointwise_def same_shape_def abs_t_def mean_def sample_def
  sum_dims12_def div_joints_def

section \<open>Sums over the elements of a tensor\<close>

text \<open>
  The elements of a tensor of shape \<open>(N, K, D)\<close> lie in \<open>N\<close> blocks of \<open>K\<close> blocks of
  \<open>D\<close>: a sum over the flat list is a triple sum over the indices, and the sum of one
  sample is the double sum over its joints and coordinates.
\<close>

lemma sum_blocks:
  fixes g :: "nat \<Rightarrow> real"
  shows "sum g {..<n * k} = (\<Sum>m<n. \<Sum>j<k. g (m * k + j))"
proof -
  have "sum g {m * k..<m * k + k} = (\<Sum>j<k. g (m * k + j))" for m
    using sum.shift_bounds_nat_ivl [of g 0 "m * k" k]
    by (simp add: add.commute atLeast0LessThan)
  then show ?thesis
    using sum.nat_group [of g k n] by simp
qed

lemma index_in_range:
  fixes n N k K c D :: nat
  assumes "n < N" and "k < K" and "c < D"
  shows "(n * K + k) * D + c < N * K * D"
proof -
  have "n * K + k < N * K"
  proof -
    have "n * K + k < n * K + K" using assms by simp
    also have "\<dots> = Suc n * K" by simp
    also have "\<dots> \<le> N * K" using assms by (intro mult_le_mono1) simp
    finally show ?thesis .
  qed
  then have "Suc (n * K + k) * D \<le> N * K * D"
    by (intro mult_le_mono1) simp
  moreover have "(n * K + k) * D + c < Suc (n * K + k) * D"
    using assms by simp
  ultimately show ?thesis by linarith
qed

lemma sum_list_grid:
  fixes xs :: "real list"
  assumes "length xs = N * K * D"
  shows "sum_list xs = (\<Sum>n<N. \<Sum>k<K. \<Sum>c<D. xs ! ((n * K + k) * D + c))"
proof -
  have "sum_list xs = sum (\<lambda>i. xs ! i) {..<(N * K) * D}"
    using assms by (simp add: sum_list_sum_nth atLeast0LessThan)
  also have "\<dots> = (\<Sum>m<N * K. \<Sum>c<D. xs ! (m * D + c))"
    by (rule sum_blocks)
  also have "\<dots> = (\<Sum>n<N. \<Sum>k<K. \<Sum>c<D. xs ! ((n * K + k) * D + c))"
    by (rule sum_blocks)
  finally show ?thesis .
qed

lemma sum_list_sample:
  fixes xs :: "real list"
  assumes "length xs = N * L" and "n < N"
  shows "sum_list (take L (drop (n * L) xs)) = (\<Sum>j<L. xs ! (n * L + j))"
proof -
  have "Suc n * L \<le> N * L"
    using assms by (intro mult_le_mono1) simp
  then have len: "n * L + L \<le> length xs"
    using assms by simp
  then have "length (take L (drop (n * L) xs)) = L"
    by simp
  then have "sum_list (take L (drop (n * L) xs)) = (\<Sum>j<L. take L (drop (n * L) xs) ! j)"
    by (simp add: sum_list_sum_nth atLeast0LessThan)
  also have "\<dots> = (\<Sum>j<L. xs ! (n * L + j))"
    using len by (intro sum.cong) simp_all
  finally show ?thesis .
qed


lemma sum_list_sample_grid:
  fixes xs :: "real list"
  assumes "length xs = N * K * D" and "n < N"
  shows "sum_list (take (K * D) (drop (n * (K * D)) xs))
           = (\<Sum>k<K. \<Sum>c<D. xs ! ((n * K + k) * D + c))"
proof -
  have "length xs = N * (K * D)"
    using assms by (simp add: mult.assoc)
  then have "sum_list (take (K * D) (drop (n * (K * D)) xs))
               = (\<Sum>j<K * D. xs ! (n * (K * D) + j))"
    using assms(2) by (rule sum_list_sample)
  also have "\<dots> = (\<Sum>k<K. \<Sum>c<D. xs ! (n * (K * D) + (k * D + c)))"
    by (rule sum_blocks)
  also have "\<dots> = (\<Sum>k<K. \<Sum>c<D. xs ! ((n * K + k) * D + c))"
    by (simp add: algebra_simps)
  finally show ?thesis .
qed

lemma sum_list_upt: "sum_list (map f [0..<N]) = (\<Sum>n<N. f n)" for f :: "nat \<Rightarrow> real"
  by (simp add: interv_sum_list_conv_sum_set_nat atLeast0LessThan)

lemma shapedD:
  assumes "shaped N K t"
  shows "size0 t = N" and "size1 t = K" and "size2 t = 2" and "length (elems t) = N * K * 2"
  using assms by (simp_all add: shaped_def wf_def)

lemma pointwise_shaped:
  assumes "shaped N K a" and "shaped N K b"
  shows "pointwise f a b = Inr (a\<lparr>elems := map2 f (elems a) (elems b)\<rparr>)"
    and "shaped N K (a\<lparr>elems := map2 f (elems a) (elems b)\<rparr>)"
  using assms by (simp_all add: pointwise_def same_shape_def shaped_def wf_def)

lemma elem_at_pointwise:
  assumes "shaped N K a" and "shaped N K b" and "n < N" and "k < K" and "c < 2"
  shows "elem_at (a\<lparr>elems := map2 f (elems a) (elems b)\<rparr>) n k c
           = f (elem_at a n k c) (elem_at b n k c)"
proof -
  have "(n * K + k) * 2 + c < N * K * 2"
    using assms(3-5) by (rule index_in_range)
  then show ?thesis
    using assms(1,2) by (simp add: elem_at_def shaped_def wf_def)
qed

lemma mean_grid:
  assumes "shaped N K t" and "0 < N" and "0 < K"
  shows "mean (map f (elems t))
           = Inr ((\<Sum>n<N. \<Sum>k<K. \<Sum>c<2. f (elem_at t n k c)) / real (N * K * 2))"
proof -
  have len: "length (map f (elems t)) = N * K * 2"
    using assms by (simp add: shapedD)
  then have ne: "map f (elems t) \<noteq> []"
    using assms by (metis length_0_conv mult_is_0 not_less_zero zero_neq_numeral)
  have "sum_list (map f (elems t))
          = (\<Sum>n<N. \<Sum>k<K. \<Sum>c<2. map f (elems t) ! ((n * K + k) * 2 + c))"
    using len by (rule sum_list_grid)
  also have "\<dots> = (\<Sum>n<N. \<Sum>k<K. \<Sum>c<2. f (elem_at t n k c))"
  proof (intro sum.cong refl)
    fix n k c assume "n \<in> {..<N}" "k \<in> {..<K}" "c \<in> {..<2::nat}"
    then have "(n * K + k) * 2 + c < N * K * 2"
      by (intro index_in_range) simp_all
    then show "map f (elems t) ! ((n * K + k) * 2 + c) = f (elem_at t n k c)"
      using assms(1) by (simp add: elem_at_def shapedD)
  qed
  finally show ?thesis
    using ne len by (simp add: mean_def)
qed

lemma smooth_l1_loss_shaped:
  assumes "shaped N K a" and "shaped N K b" and "0 < N" and "0 < K"
  shows "smooth_l1_loss a b
           = Inr ((\<Sum>n<N. \<Sum>k<K. \<Sum>c<2. smooth_l1 (elem_at a n k c - elem_at b n k c))
                   / real (N * K * 2))"
proof -
  let ?x = "a\<lparr>elems := map2 (\<lambda>x y. x - y) (elems a) (elems b)\<rparr>"
  have "smooth_l1_loss a b = mean (map smooth_l1 (elems ?x))"
    using pointwise_shaped(1) [OF assms(1,2)] by (simp add: smooth_l1_loss_def sub_def)
  also have "\<dots> = Inr ((\<Sum>n<N. \<Sum>k<K. \<Sum>c<2. smooth_l1 (elem_at ?x n k c)) / real (N * K * 2))"
    using pointwise_shaped(2) [OF assms(1,2)] assms(3,4) by (rule mean_grid)
  also have "(\<Sum>n<N. \<Sum>k<K. \<Sum>c<2. smooth_l1 (elem_at ?x n k c))
      = (\<Sum>n<N. \<Sum>k<K. \<Sum>c<2. smooth_l1 (elem_at a n k c - elem_at b n k c))"
    by (intro sum.cong refl) (simp add: elem_at_pointwise [OF assms(1,2)])
  finally show ?thesis .
qed

lemma spec_f_eq: "spec_f = smooth_l1"
  by (rule ext) (simp add: spec_f_def smooth_l1_def)

section \<open>The wing criterion on shaped tensors\<close>

lemma wing_log_arg_pos:
  assumes "wing_c w e = Inr c" and "0 \<le> delta" and "delta < w"
  shows "0 < 1 + delta / e"
proof -
  have e: "e \<noteq> 0" and w: "0 < 1 + w / e"
    using assms(1) by (auto simp: wing_c_def py_div_def math_log_def split: if_splits)
  show ?thesis
  proof (cases "0 < e")
    case True
    then have "0 \<le> delta / e" using assms(2) by simp
    then show ?thesis by simp
  next
    case False
    then have "e < 0" using e by simp
    then have "w / e < delta / e"
      using assms(3) by (simp add: divide_strict_right_mono_neg)
    then show ?thesis using w by simp
  qed
qed

lemma wing_c_ok:
  assumes "e \<noteq> 0" and "0 < 1 + w / e"
  shows "wing_c w e = Inr (spec_C w e)"
  using assms by (simp add: wing_c_def py_div_def math_log_def spec_C_def)

lemma wing_where_spec: "wing_where w e (spec_C w e) = spec_g w e"
  by (rule ext) (simp add: wing_where_def wing_log_def wing_lin_def spec_g_def)

lemma WingLoss_criterion_shaped:
  assumes "shaped N K a" and "shaped N K b" and "0 < N"
    and "wing_c (omega self) (epsilon self) = Inr c"
  shows "WingLoss_criterion self a b
           = Inr ((\<Sum>n<N. \<Sum>k<K. \<Sum>j<2.
                     wing_where (omega self) (epsilon self) c \<bar>elem_at b n k j - elem_at a n k j\<bar>)
                   / real N)"
proof -
  let ?h = "\<lambda>x. wing_where (omega self) (epsilon self) c \<bar>x\<bar>"
  let ?d = "b\<lparr>elems := map2 (\<lambda>x y. x - y) (elems b) (elems a)\<rparr>"
  let ?l = "?d\<lparr>elems := map ?h (elems ?d)\<rparr>"
  have d: "shaped N K ?d"
    using assms(2,1) by (rule pointwise_shaped(2))
  have len: "length (elems ?l) = N * K * 2"
    using assms(1,2) by (simp add: shapedD)
  have sizes: "size0 ?l = N" "size1 ?l = K" "size2 ?l = 2"
    using assms(2) by (simp_all add: shapedD)
  have "WingLoss_criterion self a b = mean (sum_dims12 ?l)"
    using pointwise_shaped(1) [OF assms(2,1)] assms(4)
    by (simp add: WingLoss_criterion_def sub_def abs_t_def Let_def comp_def)
  also have "sum_dims12 ?l
      = map (\<lambda>n. \<Sum>k<K. \<Sum>j<2. ?h (elem_at ?d n k j)) [0..<N]"
    unfolding sum_dims12_def sizes
  proof (rule map_cong [OF refl])
    fix n assume "n \<in> set [0..<N]"
    then have n: "n < N" by simp
    have "sum_list (sample ?l n) = (\<Sum>k<K. \<Sum>j<2. elems ?l ! ((n * K + k) * 2 + j))"
      unfolding sample_def sizes using len n by (rule sum_list_sample_grid)
    also have "\<dots> = (\<Sum>k<K. \<Sum>j<2. ?h (elem_at ?d n k j))"
    proof (intro sum.cong refl)
      fix k j assume "k \<in> {..<K}" "j \<in> {..<2::nat}"
      then have "(n * K + k) * 2 + j < N * K * 2"
        using n by (intro index_in_range) simp_all
      then show "elems ?l ! ((n * K + k) * 2 + j) = ?h (elem_at ?d n k j)"
        using assms(1,2) by (simp add: elem_at_def shapedD)
    qed
    finally show "sum_list (sample ?l n) = (\<Sum>k<K. \<Sum>j<2. ?h (elem_at ?d n k j))" .
  qed
  also have "mean (map (\<lambda>n. \<Sum>k<K. \<Sum>j<2. ?h (elem_at ?d n k j)) [0..<N])
      = Inr ((\<Sum>n<N. \<Sum>k<K. \<Sum>j<2. ?h (elem_at ?d n k j)) / real N)"
    using assms(3) by (simp add: mean_def sum_list_upt)
  also have "(\<Sum>n<N. \<Sum>k<K. \<Sum>j<2. ?h (elem_at ?d n k j))
      = (\<Sum>n<N. \<Sum>k<K. \<Sum>j<2. ?h (elem_at b n k j - elem_at a n k j))"
    by (intro sum.cong refl) (simp add: elem_at_pointwise [OF assms(2,1)])
  finally show ?thesis .
qed

section \<open>Bounds on the logarithm of the scenario\<close>

text \<open>
  \<open>0.40545 < ln 1.5 < 0.40547\<close>, from the Taylor polynomial of degree six of the
  exponential and its Lagrange remainder.
\<close>

lemma exp_half_le_2: "exp (1 / 2 :: real) \<le> 2"
  using real_exp_bound_lemma [of "1 / 2"] by simp

lemma exp_taylor7:
  fixes a :: real
  shows "(\<Sum>m<7. a ^ m / fact m)
           = 1 + a + a\<^sup>2 / 2 + a ^ 3 / 6 + a ^ 4 / 24 + a ^ 5 / 120 + a ^ 6 / 720"
  by (simp add: eval_nat_numeral)

lemma fact7: "fact 7 = (5040 :: real)"
  by (simp add: eval_nat_numeral)

lemma taylor7_below:
  fixes a :: real
  assumes "a = 40545 / 100000"
  shows "1 + a + a\<^sup>2 / 2 + a ^ 3 / 6 + a ^ 4 / 24 + a ^ 5 / 120 + a ^ 6 / 720
           + 2 / 5040 * a ^ 7 < 3 / 2"
  unfolding assms by (simp add: power_divide)

lemma taylor7_above:
  fixes b :: real
  assumes "b = 40547 / 100000"
  shows "3 / 2 < 1 + b + b\<^sup>2 / 2 + b ^ 3 / 6 + b ^ 4 / 24 + b ^ 5 / 120 + b ^ 6 / 720"
  unfolding assms by (simp add: power_divide)

lemma ln_3_2_lower: "(40545 / 100000 :: real) < ln (3 / 2)"
proof -
  define a :: real where "a = 40545 / 100000"
  obtain t where t: "\<bar>t\<bar> \<le> \<bar>a\<bar>"
    and e: "exp a = (\<Sum>m<7. a ^ m / fact m) + exp t / fact 7 * a ^ 7"
    using Maclaurin_exp_le [of a 7] by blast
  have "t \<le> 1 / 2" using t by (simp add: a_def)
  then have "exp t \<le> exp (1 / 2)" by simp
  then have "exp t \<le> 2" using exp_half_le_2 by linarith
  moreover have "0 \<le> a ^ 7 / 5040" by (simp add: a_def)
  ultimately have "exp t * (a ^ 7 / 5040) \<le> 2 * (a ^ 7 / 5040)"
    by (rule mult_right_mono)
  then have "exp a \<le> 1 + a + a\<^sup>2 / 2 + a ^ 3 / 6 + a ^ 4 / 24 + a ^ 5 / 120 + a ^ 6 / 720
                      + 2 / 5040 * a ^ 7"
    using e unfolding exp_taylor7 fact7 by simp
  also have "\<dots> < 3 / 2"
    by (rule taylor7_below) (simp add: a_def)
  finally have "exp a < 3 / 2" .
  then have "ln (exp a) < ln (3 / 2)"
    by (subst ln_less_cancel_iff) simp_all
  then show ?thesis by (simp add: a_def)
qed

lemma ln_3_2_upper: "ln (3 / 2) < (40547 / 100000 :: real)"
proof -
  define b :: real where "b = 40547 / 100000"
  obtain t where e: "exp b = (\<Sum>m<7. b ^ m / fact m) + exp t / fact 7 * b ^ 7"
    using Maclaurin_exp_le [of b 7] by blast
  have "0 \<le> exp t * (b ^ 7 / 5040)"
    by (simp add: b_def)
  then have "1 + b + b\<^sup>2 / 2 + b ^ 3 / 6 + b ^ 4 / 24 + b ^ 5 / 120 + b ^ 6 / 720 \<le> exp b"
    using e unfolding exp_taylor7 fact7 by simp
  moreover have "3 / 2 < 1 + b + b\<^sup>2 / 2 + b ^ 3 / 6 + b ^ 4 / 24 + b ^ 5 / 120 + b ^ 6 / 720"
    by (rule taylor7_above) (simp add: b_def)
  ultimately have "3 / 2 < exp b" by linarith
  then have "ln (3 / 2) < ln (exp b)"
    by (subst ln_less_cancel_iff) simp_all
  then show ?thesis by (simp add: b_def)
qed

section \<open>Weights, zero losses and signs\<close>

lemma mul_shaped:
  assumes "shaped N K a" and "shaped N K w"
  shows "\<exists>m. mul a w = Inr m \<and> shaped N K m"
  using pointwise_shaped [OF assms] by (auto simp: mul_def)

lemma shaped_zeros: "shaped N K (zeros N K)"
  by (simp add: shaped_def wf_def zeros_def)

lemma map2_times_zero:
  fixes xs :: "real list"
  shows "map2 (\<lambda>x y. x * y) xs (replicate (length xs) 0) = replicate (length xs) 0"
  by (induction xs) simp_all

lemma mul_zeros:
  assumes "shaped N K a"
  shows "mul a (zeros N K) = Inr (zeros N K)"
proof -
  have "map2 (\<lambda>x y. x * y) (elems a) (replicate (N * K * 2) 0) = replicate (N * K * 2) 0"
    using map2_times_zero [of "elems a"] assms by (simp add: shapedD)
  then show ?thesis
    using assms
    by (simp add: mul_def pointwise_def same_shape_def zeros_def shapedD)
qed

lemma smooth_l1_loss_same:
  assumes "shaped N K t" and "0 < N" and "0 < K"
  shows "smooth_l1_loss t t = Inr 0"
  using smooth_l1_loss_shaped [OF assms(1) assms] by (simp add: smooth_l1_def)

lemma WingLoss_criterion_same:
  assumes "shaped N K t" and "0 < N" and "0 < omega self" and "0 < epsilon self"
  shows "WingLoss_criterion self t t = Inr 0"
proof -
  have "0 < 1 + omega self / epsilon self"
    using assms(3,4) by (simp add: add_pos_nonneg)
  then have "wing_c (omega self) (epsilon self) = Inr (spec_C (omega self) (epsilon self))"
    using assms(4) by (intro wing_c_ok) simp_all
  from WingLoss_criterion_shaped [OF assms(1,1,2) this] show ?thesis
    using assms(3) by (simp add: wing_where_def wing_log_def)
qed

lemma smooth_l1_nonneg: "0 \<le> smooth_l1 x"
  by (simp add: smooth_l1_def)

lemma wing_where_nonneg:
  assumes "0 < w" and "0 < e" and "0 \<le> delta"
  shows "0 \<le> wing_where w e (spec_C w e) delta"
proof (cases "delta < w")
  case True
  have "1 \<le> 1 + delta / e" using assms by simp
  then have "0 \<le> ln (1 + delta / e)" by simp
  then show ?thesis
    using True assms(1) by (simp add: wing_where_def wing_log_def)
next
  case False
  have "1 \<le> 1 + w / e" using assms by simp
  then have "0 \<le> ln (1 + w / e)" by simp
  then have "0 \<le> w * ln (1 + w / e)" using assms(1) by simp
  then show ?thesis
    using False by (simp add: wing_where_def wing_lin_def spec_C_def algebra_simps)
qed

lemma smooth_l1_loss_nonneg:
  assumes "shaped N K a" and "shaped N K b" and "0 < N" and "0 < K"
  shows "\<exists>r. smooth_l1_loss a b = Inr r \<and> 0 \<le> r"
  using smooth_l1_loss_shaped [OF assms]
  by (simp add: sum_nonneg smooth_l1_nonneg)

lemma WingLoss_criterion_nonneg:
  assumes "shaped N K a" and "shaped N K b" and "0 < N"
    and "0 < omega self" and "0 < epsilon self"
  shows "\<exists>r. WingLoss_criterion self a b = Inr r \<and> 0 \<le> r"
proof -
  have "0 < 1 + omega self / epsilon self"
    using assms(4,5) by (simp add: add_pos_nonneg)
  then have "wing_c (omega self) (epsilon self) = Inr (spec_C (omega self) (epsilon self))"
    using assms(5) by (intro wing_c_ok) simp_all
  from WingLoss_criterion_shaped [OF assms(1,2,3) this] show ?thesis
    using assms(4,5) by (simp add: sum_nonneg wing_where_nonneg)
qed

section \<open>Repeating a sample along the batch\<close>












section \<open>Rounding at the tie input\<close>


lemma rne_below:
  assumes "0 \<le> r" and "r < 1 / 2"
  shows "rne (of_int k + r) = k"
proof -
  have "\<lfloor>of_int k + r\<rfloor> = k"
    using assms by (intro floor_unique) simp_all
  then show ?thesis
    using assms by (simp add: rne_def)
qed





















section \<open>The concrete scenario\<close>

text \<open>
  C1 (as amended). In the scenario the differences are \<open>-1\<close> and \<open>0\<close>, the smooth-L1
  terms \<open>1/2\<close> and \<open>0\<close>; their mean over the two elements is \<open>1/4\<close>, and
  SmoothL1Loss.forward returns \<open>0.25\<close>.
\<close>

theorem SmoothL1Loss_scenario:
  "SmoothL1Loss_forward scenario_smooth scenario_output scenario_target scenario_weight
     = Inr (1 / 4)"
  by (simp add: SmoothL1Loss_forward_def smooth_l1_loss_def smooth_l1_def
      scenario_defs tensor_defs)

text \<open>
  C1 (as stated): SmoothL1Loss.forward returns \<open>0.5\<close> in the scenario. It does not.
\<close>

theorem SmoothL1Loss_scenario_not_half:
  "SmoothL1Loss_forward scenario_smooth scenario_output scenario_target scenario_weight
     \<noteq> Inr (1 / 2)"
  by (simp add: SmoothL1Loss_forward_def smooth_l1_loss_def smooth_l1_def
      scenario_defs tensor_defs)

section \<open>The wing function\<close>

text \<open>
  C4. For \<open>\<omega> > 0\<close> and \<open>\<epsilon> > 0\<close> the constant is computed, it is
  \<open>C = \<omega> (1 - ln (1 + \<omega> / \<epsilon>))\<close> (\<open>spec_C\<close>), and the two branches of the wing function
  agree at \<open>\<delta> = \<omega>\<close>: \<open>\<omega> ln (1 + \<omega> / \<epsilon>) = \<omega> - C\<close>.
\<close>

theorem wing_branches_agree:
  assumes "0 < w" and "0 < e"
  shows "wing_c w e = Inr (spec_C w e) \<and> wing_log w e w = wing_lin (spec_C w e) w"
proof -
  have "0 < 1 + w / e"
    using assms by (simp add: add_pos_nonneg)
  then have "wing_c w e = Inr (spec_C w e)"
    using assms by (simp add: wing_c_def py_div_def math_log_def spec_C_def)
  moreover have "wing_log w e w = wing_lin (spec_C w e) w"
    by (simp add: wing_log_def wing_lin_def spec_C_def algebra_simps)
  ultimately show ?thesis by simp
qed

theorem wing_branches_agree_witness:
  "wing_c 10 2 = Inr (spec_C 10 2) \<and> wing_log 10 2 10 = wing_lin (spec_C 10 2) 10"
  using wing_branches_agree [of 10 2] by simp

section \<open>The scale and the unused weight\<close>

text \<open>
  C7. The result is linear in \<open>loss_weight\<close>: with \<open>loss_weight = 2 w\<close> both losses
  return exactly twice what they return with \<open>loss_weight = w\<close> (and the same fault where
  they return none).
\<close>

theorem loss_weight_doubles:
  "SmoothL1Loss_forward (s\<lparr>SmoothL1Loss.loss_weight := 2 * w\<rparr>) output target target_weight
     = map_sum id (\<lambda>r. 2 * r)
         (SmoothL1Loss_forward (s\<lparr>SmoothL1Loss.loss_weight := w\<rparr>) output target target_weight)
   \<and> WingLoss_forward (g\<lparr>loss_weight := 2 * w\<rparr>) output target target_weight
     = map_sum id (\<lambda>r. 2 * r)
         (WingLoss_forward (g\<lparr>loss_weight := w\<rparr>) output target target_weight)"
  by (simp add: SmoothL1Loss_forward_def WingLoss_forward_def WingLoss_criterion_def
      Let_def split: sum.splits)

text \<open>
  C9. With \<open>use_target_weight = False\<close> the result does not depend on the
  \<open>target_weight\<close> argument: two calls that differ only there return the same.
\<close>

theorem target_weight_unused:
  assumes "\<not> SmoothL1Loss.use_target_weight s" and "\<not> use_target_weight g"
  shows "SmoothL1Loss_forward s output target w1 = SmoothL1Loss_forward s output target w2
       \<and> WingLoss_forward g output target w1 = WingLoss_forward g output target w2"
  using assms by (simp add: SmoothL1Loss_forward_def WingLoss_forward_def)

theorem target_weight_unused_witness:
  "batch_weight \<noteq> scenario_weight
   \<and> SmoothL1Loss_forward scenario_smooth batch_output batch_target batch_weight
     = SmoothL1Loss_forward scenario_smooth batch_output batch_target scenario_weight
   \<and> WingLoss_forward scenario_wing batch_output batch_target batch_weight
     = WingLoss_forward scenario_wing batch_output batch_target scenario_weight"
  using target_weight_unused [of scenario_smooth scenario_wing]
  by (simp add: scenario_smooth_def scenario_wing_def batch_weight_def scenario_weight_def)

section \<open>The formulas of the specification\<close>

text \<open>
  C2. For output and target of shape \<open>(N, K, 2)\<close> (with \<open>N, K \<ge> 1\<close>) and
  \<open>use_target_weight = False\<close>, SmoothL1Loss.forward returns the mean over all
  \<open>N K 2\<close> elements of \<open>f (prediction - target)\<close>, divided by \<open>K\<close>, times
  \<open>loss_weight\<close>, with \<open>f x = 0.5 x\<^sup>2\<close> if \<open>\<bar>x\<bar> < 1\<close> and \<open>\<bar>x\<bar> - 0.5\<close> otherwise.
\<close>

theorem SmoothL1Loss_forward_formula:
  assumes "shaped N K output" and "shaped N K target" and "0 < N" and "0 < K"
    and "\<not> SmoothL1Loss.use_target_weight self"
  shows "SmoothL1Loss_forward self output target target_weight
           = Inr (SmoothL1Loss_spec (SmoothL1Loss.loss_weight self) N K output target)"
  using assms smooth_l1_loss_shaped [OF assms(1-4)]
  by (simp add: SmoothL1Loss_forward_def SmoothL1Loss_spec_def spec_f_eq div_joints_def shapedD)

theorem SmoothL1Loss_forward_formula_witness:
  "shaped 2 2 batch_output \<and> shaped 2 2 batch_target
   \<and> \<not> SmoothL1Loss.use_target_weight scenario_smooth
   \<and> SmoothL1Loss_forward scenario_smooth batch_output batch_target batch_weight
       = Inr (117 / 128)"
proof -
  have a: "shaped 2 2 batch_output" and b: "shaped 2 2 batch_target"
    by (simp_all add: shaped_def wf_def batch_defs)
  have c: "\<not> SmoothL1Loss.use_target_weight scenario_smooth"
    by (simp add: scenario_smooth_def)
  have "SmoothL1Loss_spec (SmoothL1Loss.loss_weight scenario_smooth) 2 2 batch_output batch_target
          = 117 / 128"
    by (simp add: SmoothL1Loss_spec_def spec_f_def elem_at_def batch_defs scenario_smooth_def
        lessThan_Suc eval_nat_numeral)
  with SmoothL1Loss_forward_formula [OF a b _ _ c, of batch_weight] a b c show ?thesis
    by simp
qed

text \<open>
  C3. For output and target of shape \<open>(N, K, 2)\<close> (with \<open>N, K \<ge> 1\<close>),
  \<open>use_target_weight = False\<close> and a configuration on which the constant \<open>C\<close> is
  computed without a raise (\<open>\<epsilon> \<noteq> 0\<close> and \<open>1 + \<omega> / \<epsilon> > 0\<close>; every \<open>\<omega>, \<epsilon> > 0\<close> is
  one), WingLoss.forward returns the mean over the batch of the per-sample sums of
  \<open>g \<bar>prediction - target\<bar>\<close>, divided by \<open>K\<close>, times \<open>loss_weight\<close>. Its instance at
  the specification's scenario is \<open>10 ln 1.5\<close>, within \<open>0.0001\<close> of \<open>4.0546\<close>.
\<close>

theorem WingLoss_forward_formula:
  assumes "shaped N K output" and "shaped N K target" and "0 < N" and "0 < K"
    and "\<not> use_target_weight self"
    and "epsilon self \<noteq> 0" and "0 < 1 + omega self / epsilon self"
  shows "WingLoss_forward self output target target_weight
           = Inr (WingLoss_spec (omega self) (epsilon self) (loss_weight self) N K output target)"
proof -
  have "wing_c (omega self) (epsilon self) = Inr (spec_C (omega self) (epsilon self))"
    using assms(6,7) by (rule wing_c_ok)
  from WingLoss_criterion_shaped [OF assms(1,2,3) this]
  show ?thesis
    using assms(1,4,5)
    by (simp add: WingLoss_forward_def WingLoss_spec_def wing_where_spec div_joints_def shapedD
        abs_minus_commute)
qed

theorem WingLoss_forward_formula_witness:
  "shaped 1 1 scenario_output \<and> shaped 1 1 scenario_target
   \<and> \<not> use_target_weight scenario_wing
   \<and> WingLoss_forward scenario_wing scenario_output scenario_target scenario_weight
       = Inr (10 * ln (3 / 2))
   \<and> \<bar>10 * ln (3 / 2) - 40546 / 10000\<bar> < (1 / 10000 :: real)"
proof -
  have a: "shaped 1 1 scenario_output" and b: "shaped 1 1 scenario_target"
    by (simp_all add: shaped_def wf_def scenario_defs)
  have c: "\<not> use_target_weight scenario_wing"
    and e: "epsilon scenario_wing \<noteq> 0"
    and w: "0 < 1 + omega scenario_wing / epsilon scenario_wing"
    by (simp_all add: scenario_wing_def)
  have "WingLoss_spec (omega scenario_wing) (epsilon scenario_wing) (loss_weight scenario_wing)
          1 1 scenario_output scenario_target = 10 * ln (3 / 2)"
    by (simp add: WingLoss_spec_def spec_g_def elem_at_def scenario_defs lessThan_Suc
        eval_nat_numeral)
  with WingLoss_forward_formula [OF a b _ _ c e w, of scenario_weight]
  have "WingLoss_forward scenario_wing scenario_output scenario_target scenario_weight
          = Inr (10 * ln (3 / 2))"
    by simp
  moreover have "\<bar>10 * ln (3 / 2) - 40546 / 10000\<bar> < (1 / 10000 :: real)"
  proof -
    have "(40545 / 10000 :: real) < 10 * ln (3 / 2)"
      using ln_3_2_lower by linarith
    moreover have "10 * ln (3 / 2) < (40547 / 10000 :: real)"
      using ln_3_2_upper by linarith
    ultimately show ?thesis
      by linarith
  qed
  ultimately show ?thesis
    using a b c by simp
qed

section \<open>Zero losses\<close>

text \<open>
  C5. Where prediction and target are the same tensor (of shape \<open>(N, K, 2)\<close>,
  \<open>N, K \<ge> 1\<close>, with a weight of that shape), SmoothL1Loss.forward returns 0, and so
  does WingLoss.forward for \<open>\<omega> > 0\<close> and \<open>\<epsilon> > 0\<close>, whatever \<open>use_target_weight\<close> is.
\<close>

theorem equal_inputs_give_zero:
  assumes "shaped N K t" and "shaped N K target_weight" and "0 < N" and "0 < K"
    and "0 < omega g" and "0 < epsilon g"
  shows "SmoothL1Loss_forward s t t target_weight = Inr 0
       \<and> WingLoss_forward g t t target_weight = Inr 0"
proof -
  obtain m where m: "mul t target_weight = Inr m" "shaped N K m"
    using mul_shaped [OF assms(1,2)] by blast
  have "smooth_l1_loss t t = Inr 0" "smooth_l1_loss m m = Inr 0"
    using assms(1,3,4) m(2) by (simp_all add: smooth_l1_loss_same)
  then have "SmoothL1Loss_forward s t t target_weight = Inr 0"
    using m(1) assms(1,4) by (simp add: SmoothL1Loss_forward_def div_joints_def shapedD)
  moreover have "WingLoss_criterion g t t = Inr 0" "WingLoss_criterion g m m = Inr 0"
    using assms(1,3,5,6) m(2) by (simp_all add: WingLoss_criterion_same)
  then have "WingLoss_forward g t t target_weight = Inr 0"
    using m(1) assms(1,4) by (simp add: WingLoss_forward_def div_joints_def shapedD)
  ultimately show ?thesis by simp
qed

theorem equal_inputs_give_zero_witness:
  "shaped 2 2 batch_output \<and> shaped 2 2 batch_weight
   \<and> SmoothL1Loss_forward weighted_smooth batch_output batch_output batch_weight = Inr 0
   \<and> WingLoss_forward weighted_wing batch_output batch_output batch_weight = Inr 0"
proof -
  have a: "shaped 2 2 batch_output" and b: "shaped 2 2 batch_weight"
    by (simp_all add: shaped_def wf_def batch_defs)
  have w: "0 < omega weighted_wing" and e: "0 < epsilon weighted_wing"
    by (simp_all add: weighted_wing_def)
  from equal_inputs_give_zero [OF a b _ _ w e, of weighted_smooth] a b show ?thesis
    by simp
qed

text \<open>
  C6. With \<open>use_target_weight = True\<close> and a weight tensor of zeros, both losses return
  0 for every output and target (of shape \<open>(N, K, 2)\<close>, \<open>N, K \<ge> 1\<close>; \<open>\<omega>, \<epsilon> > 0\<close> for
  the wing loss): output and target are each multiplied by the weights before the
  distance is taken.
\<close>

theorem zero_weight_gives_zero:
  assumes "shaped N K output" and "shaped N K target" and "0 < N" and "0 < K"
    and "SmoothL1Loss.use_target_weight s" and "use_target_weight g"
    and "0 < omega g" and "0 < epsilon g"
  shows "SmoothL1Loss_forward s output target (zeros N K) = Inr 0
       \<and> WingLoss_forward g output target (zeros N K) = Inr 0"
proof -
  have z: "mul output (zeros N K) = Inr (zeros N K)" "mul target (zeros N K) = Inr (zeros N K)"
    using assms(1,2) by (simp_all add: mul_zeros)
  have "smooth_l1_loss (zeros N K) (zeros N K) = Inr 0"
    using shaped_zeros assms(3,4) by (rule smooth_l1_loss_same)
  then have "SmoothL1Loss_forward s output target (zeros N K) = Inr 0"
    using z assms(1,4,5) by (simp add: SmoothL1Loss_forward_def div_joints_def shapedD)
  moreover have "WingLoss_criterion g (zeros N K) (zeros N K) = Inr 0"
    using shaped_zeros assms(3,7,8) by (rule WingLoss_criterion_same)
  then have "WingLoss_forward g output target (zeros N K) = Inr 0"
    using z assms(1,4,6) by (simp add: WingLoss_forward_def div_joints_def shapedD)
  ultimately show ?thesis by simp
qed

theorem zero_weight_gives_zero_witness:
  "shaped 2 2 batch_output \<and> shaped 2 2 batch_target
   \<and> SmoothL1Loss.use_target_weight weighted_smooth \<and> use_target_weight weighted_wing
   \<and> SmoothL1Loss_forward weighted_smooth batch_output batch_target (zeros 2 2) = Inr 0
   \<and> WingLoss_forward weighted_wing batch_output batch_target (zeros 2 2) = Inr 0"
proof -
  have a: "shaped 2 2 batch_output" and b: "shaped 2 2 batch_target"
    by (simp_all add: shaped_def wf_def batch_defs)
  have u: "SmoothL1Loss.use_target_weight weighted_smooth" "use_target_weight weighted_wing"
    and w: "0 < omega weighted_wing" and e: "0 < epsilon weighted_wing"
    by (simp_all add: weighted_wing_def weighted_smooth_def)
  from zero_weight_gives_zero [OF a b _ _ u w e] a b u show ?thesis
    by simp
qed

section \<open>Batch size and sign\<close>




text \<open>
  C10. For \<open>loss_weight \<ge> 0\<close> (and \<open>\<omega> > 0\<close>, \<open>\<epsilon> > 0\<close> for the wing loss), on inputs of
  shape \<open>(N, K, 2)\<close> with \<open>N, K \<ge> 1\<close>, both losses return a number, and it is not
  negative.
\<close>

theorem losses_nonnegative:
  assumes "shaped N K output" and "shaped N K target" and "shaped N K target_weight"
    and "0 < N" and "0 < K"
    and "0 \<le> SmoothL1Loss.loss_weight s" and "0 \<le> loss_weight g"
    and "0 < omega g" and "0 < epsilon g"
  shows "(\<exists>r. SmoothL1Loss_forward s output target target_weight = Inr r \<and> 0 \<le> r)
       \<and> (\<exists>r. WingLoss_forward g output target target_weight = Inr r \<and> 0 \<le> r)"
proof -
  obtain ow where ow: "mul output target_weight = Inr ow" "shaped N K ow"
    using mul_shaped [OF assms(1,3)] by blast
  obtain tw where tw: "mul target target_weight = Inr tw" "shaped N K tw"
    using mul_shaped [OF assms(2,3)] by blast
  obtain r1 where r1: "smooth_l1_loss output target = Inr r1" "0 \<le> r1"
    using smooth_l1_loss_nonneg [OF assms(1,2,4,5)] by blast
  obtain r2 where r2: "smooth_l1_loss ow tw = Inr r2" "0 \<le> r2"
    using smooth_l1_loss_nonneg [OF ow(2) tw(2) assms(4,5)] by blast
  obtain r3 where r3: "WingLoss_criterion g output target = Inr r3" "0 \<le> r3"
    using WingLoss_criterion_nonneg [OF assms(1,2,4,8,9)] by blast
  obtain r4 where r4: "WingLoss_criterion g ow tw = Inr r4" "0 \<le> r4"
    using WingLoss_criterion_nonneg [OF ow(2) tw(2) assms(4,8,9)] by blast
  have "\<exists>r. SmoothL1Loss_forward s output target target_weight = Inr r \<and> 0 \<le> r"
    using ow(1) tw(1) r1 r2 assms(1,5,6)
    by (simp add: SmoothL1Loss_forward_def div_joints_def shapedD)
  moreover have "\<exists>r. WingLoss_forward g output target target_weight = Inr r \<and> 0 \<le> r"
    using ow(1) tw(1) r3 r4 assms(1,5,7)
    by (simp add: WingLoss_forward_def div_joints_def shapedD)
  ultimately show ?thesis by simp
qed

theorem losses_nonnegative_witness:
  "shaped 2 2 batch_output \<and> shaped 2 2 batch_target \<and> shaped 2 2 batch_weight
   \<and> (\<exists>r. SmoothL1Loss_forward weighted_smooth batch_output batch_target batch_weight = Inr r
          \<and> 0 \<le> r)
   \<and> (\<exists>r. WingLoss_forward weighted_wing batch_output batch_target batch_weight = Inr r
          \<and> 0 \<le> r)"
proof -
  have a: "shaped 2 2 batch_output" and b: "shaped 2 2 batch_target"
    and c: "shaped 2 2 batch_weight"
    by (simp_all add: shaped_def wf_def batch_defs)
  have l: "0 \<le> SmoothL1Loss.loss_weight weighted_smooth" "0 \<le> loss_weight weighted_wing"
    and w: "0 < omega weighted_wing" and e: "0 < epsilon weighted_wing"
    by (simp_all add: weighted_wing_def weighted_smooth_def)
  from losses_nonnegative [OF a b c _ _ l w e] a b c show ?thesis
    by simp
qed

end
